theory Spec2Isabelle
  imports Complex_Main
begin

section \<open>Python numbers\<close>

text \<open>
  \<^verbatim>\<open>generate_icon.py\<close> mixes Python integers (unbounded, modelled as \<^typ>\<open>int\<close>) with
  floats.  A float is a binary64 number, modelled as a pair \<open>(m, e)\<close> of a signed mantissa
  and a binary exponent that denotes \<open>m * 2 ^ e\<close>.  Every float operation computes its
  exact result and rounds it to 53 significant bits, to nearest with ties to even.  The
  exponent range is left unbounded: overflow and subnormal numbers cannot occur for canvas
  sizes that fit into memory.
\<close>

type_synonym float = "int \<times> int"

text \<open>The number of binary digits of a natural number.\<close>

fun bits :: "nat \<Rightarrow> nat" where
  "bits n = (if n = 0 then 0 else Suc (bits (n div 2)))"

declare bits.simps [simp del]

text \<open>Rounding \<open>m * 2 ^ e\<close> to 53 significant bits.\<close>

definition round53 :: "int \<Rightarrow> int \<Rightarrow> float" where
  "round53 m e =
     (let b = int (bits (nat \<bar>m\<bar>)) in
      if b \<le> 53 then (m, e)
      else
        let s = nat (b - 53);
            q = \<bar>m\<bar> div 2 ^ s;
            r = \<bar>m\<bar> mod 2 ^ s;
            h = 2 ^ (s - 1)
        in (sgn m * (if h < r \<or> (r = h \<and> odd q) then q + 1 else q), e + int s))"

definition float_of_int :: "int \<Rightarrow> float" where
  "float_of_int n = round53 n 0"

definition fmul :: "float \<Rightarrow> float \<Rightarrow> float" where
  "fmul a b = (case a of (m1, e1) \<Rightarrow> case b of (m2, e2) \<Rightarrow> round53 (m1 * m2) (e1 + e2))"

definition fadd :: "float \<Rightarrow> float \<Rightarrow> float" where
  "fadd a b =
     (case a of (m1, e1) \<Rightarrow> case b of (m2, e2) \<Rightarrow>
        let e = min e1 e2
        in round53 (m1 * 2 ^ nat (e1 - e) + m2 * 2 ^ nat (e2 - e)) e)"

text \<open>\<^verbatim>\<open>a / b\<close> on two integers is the correctly rounded quotient: the quotient is
  computed to at least 55 bits, and one more bit records whether anything was cut off.
  The script divides by \<^verbatim>\<open>size\<close> only inside \<^verbatim>\<open>for y in range(size)\<close>, where \<^verbatim>\<open>size\<close>
  is positive, so \<^verbatim>\<open>ZeroDivisionError\<close> cannot arise.\<close>

definition py_truediv :: "int \<Rightarrow> int \<Rightarrow> float" where
  "py_truediv a b =
     (let k = nat (max 0 (55 + int (bits (nat \<bar>b\<bar>)) - int (bits (nat \<bar>a\<bar>))));
          n = \<bar>a\<bar> * 2 ^ k;
          q = n div \<bar>b\<bar>;
          sticky = (if n mod \<bar>b\<bar> = 0 then 0 else 1)
      in round53 (sgn a * sgn b * (2 * q + sticky)) (- int k - 1))"

text \<open>\<^verbatim>\<open>int(x)\<close> on a float truncates toward zero.\<close>

definition py_int :: "float \<Rightarrow> int" where
  "py_int a =
     (case a of (m, e) \<Rightarrow>
        if 0 \<le> e then m * 2 ^ nat e else sgn m * (\<bar>m\<bar> div 2 ^ nat (- e)))"

text \<open>\<^verbatim>\<open>n * x\<close> and \<^verbatim>\<open>n + x\<close> for an integer \<open>n\<close> and a float \<open>x\<close>: the integer is
  converted to a float first.\<close>

definition py_mul :: "int \<Rightarrow> float \<Rightarrow> float" where
  "py_mul n x = fmul (float_of_int n) x"

definition py_add :: "int \<Rightarrow> float \<Rightarrow> float" where
  "py_add n x = fadd (float_of_int n) x"

text \<open>A decimal float literal such as \<^verbatim>\<open>0.22\<close>, given as \<open>22\<close> over \<open>10 ^ 2\<close>: the binary64
  number nearest to the decimal value.\<close>

definition lit :: "int \<Rightarrow> nat \<Rightarrow> float" where
  "lit n k = py_truediv n (10 ^ k)"


section \<open>Pillow images and drawing primitives\<close>

text \<open>
  The script draws through the Pillow library (\<^verbatim>\<open>PIL.Image\<close>, \<^verbatim>\<open>PIL.ImageDraw\<close>), which is
  not part of the repository.  Its primitives are modelled here from their documented
  behaviour.  An image has a mode, a size and one value per pixel; an \<^verbatim>\<open>L\<close> image keeps its
  single band in the first component of the pixel value.
\<close>

datatype mode = L | RGBA

type_synonym rgba = "nat \<times> nat \<times> nat \<times> nat"

record image =
  mode :: mode
  width :: int
  height :: int
  px :: "int \<Rightarrow> int \<Rightarrow> rgba"

datatype error =
    ValueError | NameError | NotModelled
  | FileExistsError | FileNotFoundError | NotADirectoryError | IsADirectoryError

text \<open>A Python colour argument: an integer or a tuple of integers.\<close>

datatype color = ColorInt int | ColorTuple "int list"

definition clip8 :: "int \<Rightarrow> nat" where
  "clip8 v = nat (max 0 (min 255 v))"

text \<open>The ink Pillow derives from a colour for an image of the given mode: a three-tuple
  on an \<^verbatim>\<open>RGBA\<close> image gets alpha 255, an integer on an \<^verbatim>\<open>RGBA\<close> image is a packed pixel.\<close>

fun getink :: "mode \<Rightarrow> color \<Rightarrow> error + rgba" where
  "getink L (ColorInt v) = Inr (clip8 v, 0, 0, 0)"
| "getink L (ColorTuple [v]) = Inr (clip8 v, 0, 0, 0)"
| "getink L (ColorTuple vs) = Inl ValueError"
| "getink RGBA (ColorTuple [r, g, b]) = Inr (clip8 r, clip8 g, clip8 b, 255)"
| "getink RGBA (ColorTuple [r, g, b, a]) = Inr (clip8 r, clip8 g, clip8 b, clip8 a)"
| "getink RGBA (ColorTuple vs) = Inl ValueError"
| "getink RGBA (ColorInt v) =
     Inr (nat (v mod 256), nat (v div 256 mod 256),
          nat (v div 65536 mod 256), nat (v div 16777216 mod 256))"

text \<open>\<^verbatim>\<open>Image.new(mode, (w, h), color)\<close>.\<close>

definition image_new :: "mode \<Rightarrow> int \<Rightarrow> int \<Rightarrow> color \<Rightarrow> error + image" where
  "image_new m w h c =
     (if w < 0 \<or> h < 0 then Inl ValueError
      else case getink m c of
             Inl e \<Rightarrow> Inl e
           | Inr ink \<Rightarrow> Inr \<lparr>mode = m, width = w, height = h, px = (\<lambda>x y. ink)\<rparr>)"

subsection \<open>Scan conversion\<close>

text \<open>
  Which pixels a shape covers is decided by Pillow's scan converter.  For the pixels next
  to a rounded corner and at the rim of a stroke wider than one pixel the answer depends
  on the library version, so the model fixes only what every version agrees on: a region
  that is surely covered and an envelope outside of which nothing is drawn.  Between the
  two, a parameter \<open>R\<close> of type \<open>scan\<close> decides; every result below holds for all \<open>R\<close>.
\<close>

datatype shape =
    RoundedRect int int int int int
  | Segment int int int int int

type_synonym scan = "shape \<Rightarrow> int \<Rightarrow> int \<Rightarrow> bool"

definition in_box :: "int \<Rightarrow> int \<Rightarrow> int \<Rightarrow> int \<Rightarrow> int \<Rightarrow> int \<Rightarrow> bool" where
  "in_box x0 y0 x1 y1 x y = (x0 \<le> x \<and> x \<le> x1 \<and> y0 \<le> y \<and> y \<le> y1)"

text \<open>The corners of a rounded rectangle are separate quarter circles when the diameter
  is smaller than both sides; otherwise Pillow joins them.\<close>

definition separate_corners :: "int \<Rightarrow> int \<Rightarrow> int \<Rightarrow> int \<Rightarrow> int \<Rightarrow> bool" where
  "separate_corners x0 y0 x1 y1 r = (0 \<le> r \<and> 2 * r < x1 - x0 - 1 \<and> 2 * r < y1 - y0 - 1)"

text \<open>Squared distance of a pixel from the rectangle spanned by the four corner centres.\<close>

definition clamp :: "int \<Rightarrow> int \<Rightarrow> int \<Rightarrow> int" where
  "clamp lo hi v = (if v < lo then lo else if hi < v then hi else v)"

definition corner_dist2 :: "int \<Rightarrow> int \<Rightarrow> int \<Rightarrow> int \<Rightarrow> int \<Rightarrow> int \<Rightarrow> int \<Rightarrow> int" where
  "corner_dist2 x0 y0 x1 y1 r x y =
     (x - clamp (x0 + r) (x1 - r) x) ^ 2 + (y - clamp (y0 + r) (y1 - r) y) ^ 2"

text \<open>Surely covered: the two bands between the corners of a rounded rectangle (the
  bounding box includes both end points), and the pixels of a horizontal or vertical
  hairline from end point to end point.\<close>

fun sure :: "shape \<Rightarrow> int \<Rightarrow> int \<Rightarrow> bool" where
  "sure (RoundedRect x0 y0 x1 y1 r) x y =
     (separate_corners x0 y0 x1 y1 r \<and> in_box x0 y0 x1 y1 x y \<and>
      ((x0 + r < x \<and> x < x1 - r) \<or> (y0 + r < y \<and> y < y1 - r)))"
| "sure (Segment x0 y0 x1 y1 w) x y =
     (w \<le> 1 \<and> (x0 = x1 \<or> y0 = y1) \<and>
      in_box (min x0 x1) (min y0 y1) (max x0 x1) (max y0 y1) x y)"

text \<open>Possibly covered: inside the bounding box, and for separate corners not farther
  than one pixel beyond the corner circle; for a stroke, inside the box of its end points,
  widened by the stroke width when that exceeds one pixel.\<close>

fun maybe :: "shape \<Rightarrow> int \<Rightarrow> int \<Rightarrow> bool" where
  "maybe (RoundedRect x0 y0 x1 y1 r) x y =
     (in_box x0 y0 x1 y1 x y \<and>
      (if separate_corners x0 y0 x1 y1 r
       then corner_dist2 x0 y0 x1 y1 r x y \<le> (r + 1) ^ 2 else True))"
| "maybe (Segment x0 y0 x1 y1 w) x y =
     (let m = (if w \<le> 1 then 0 else w)
      in in_box (min x0 x1 - m) (min y0 y1 - m) (max x0 x1 + m) (max y0 y1 + m) x y)"

definition covers :: "scan \<Rightarrow> shape \<Rightarrow> int \<Rightarrow> int \<Rightarrow> bool" where
  "covers R s x y = (sure s x y \<or> (maybe s x y \<and> R s x y))"

text \<open>A \<^verbatim>\<open>Draw\<close> object of the image's own mode replaces the covered pixels inside the
  image by the ink; nothing is blended and nothing is drawn outside the image.\<close>

definition inside :: "image \<Rightarrow> int \<Rightarrow> int \<Rightarrow> bool" where
  "inside im x y = (0 \<le> x \<and> x < width im \<and> 0 \<le> y \<and> y < height im)"

definition paint :: "scan \<Rightarrow> image \<Rightarrow> shape \<Rightarrow> rgba \<Rightarrow> image" where
  "paint R im s ink =
     im\<lparr>px := (\<lambda>x y. if inside im x y \<and> covers R s x y then ink else px im x y)\<rparr>"

text \<open>\<^verbatim>\<open>ImageDraw.Draw(im).line([(x0, y0), (x1, y1)], fill=c, width=w)\<close>.\<close>

definition draw_line ::
  "scan \<Rightarrow> image \<Rightarrow> int \<Rightarrow> int \<Rightarrow> int \<Rightarrow> int \<Rightarrow> color \<Rightarrow> int \<Rightarrow> error + image" where
  "draw_line R im x0 y0 x1 y1 c w =
     (case getink (mode im) c of
        Inl e \<Rightarrow> Inl e
      | Inr ink \<Rightarrow> Inr (paint R im (Segment x0 y0 x1 y1 w) ink))"

text \<open>\<^verbatim>\<open>ImageDraw.Draw(im).rounded_rectangle([(x0, y0), (x1, y1)], radius=r, fill=c)\<close>;
  Pillow rejects a box whose second corner lies before the first.\<close>

definition draw_rounded_rectangle ::
  "scan \<Rightarrow> image \<Rightarrow> int \<Rightarrow> int \<Rightarrow> int \<Rightarrow> int \<Rightarrow> int \<Rightarrow> color \<Rightarrow> error + image" where
  "draw_rounded_rectangle R im x0 y0 x1 y1 r c =
     (if x1 < x0 \<or> y1 < y0 then Inl ValueError
      else case getink (mode im) c of
             Inl e \<Rightarrow> Inl e
           | Inr ink \<Rightarrow> Inr (paint R im (RoundedRect x0 y0 x1 y1 r) ink))"

text \<open>\<^verbatim>\<open>im.putalpha(alpha)\<close> with an image argument: the band of an \<^verbatim>\<open>L\<close> image of the same
  size becomes the alpha channel.  (On an image without alpha channel Pillow converts the
  mode first; the script never does that.)\<close>

definition putalpha :: "image \<Rightarrow> image \<Rightarrow> error + image" where
  "putalpha im alpha =
     (if mode im \<noteq> RGBA then Inl NotModelled
      else if mode alpha \<noteq> L then Inl ValueError
      else if width alpha \<noteq> width im \<or> height alpha \<noteq> height im then Inl ValueError
      else Inr (im\<lparr>px := (\<lambda>x y. case px im x y of
                                   (r, g, b, a) \<Rightarrow> (r, g, b, fst (px alpha x y)))\<rparr>))"

text \<open>One pixel of \<^verbatim>\<open>Image.alpha_composite\<close>: \<open>src\<close> over \<open>dst\<close>, in Pillow's fixed-point
  arithmetic with seven extra bits (all intermediate values stay below \<open>2^32\<close>).\<close>

definition shift_for_div255 :: "nat \<Rightarrow> nat" where
  "shift_for_div255 a = (a div 256 + a) div 256"

definition composite_px :: "rgba \<Rightarrow> rgba \<Rightarrow> rgba" where
  "composite_px dst src =
     (case dst of (dr, dg, db, da) \<Rightarrow>
      case src of (sr, sg, sb, sa) \<Rightarrow>
        if sa = 0 then dst
        else
          let blend = da * (255 - sa);
              outa255 = sa * 255 + blend;
              coef1 = sa * 255 * 255 * 128 div outa255;
              coef2 = 255 * 128 - coef1;
              ch = (\<lambda>s d. shift_for_div255 (s * coef1 + d * coef2 + 128 * 128) div 128)
          in (ch sr dr, ch sg dg, ch sb db, shift_for_div255 (outa255 + 128)))"

text \<open>\<^verbatim>\<open>Image.alpha_composite(im1, im2)\<close>: both images \<^verbatim>\<open>RGBA\<close> and of the same size.\<close>

definition alpha_composite :: "image \<Rightarrow> image \<Rightarrow> error + image" where
  "alpha_composite im1 im2 =
     (if mode im1 \<noteq> RGBA \<or> mode im2 \<noteq> RGBA then Inl ValueError
      else if width im1 \<noteq> width im2 \<or> height im1 \<noteq> height im2 then Inl ValueError
      else Inr (im1\<lparr>px := (\<lambda>x y. composite_px (px im1 x y) (px im2 x y))\<rparr>))"

text \<open>\<^verbatim>\<open>im.getpixel((x, y))\<close>; outside the image Pillow raises \<^verbatim>\<open>IndexError\<close>.\<close>

definition getpixel :: "image \<Rightarrow> int \<Rightarrow> int \<Rightarrow> rgba option" where
  "getpixel im x y = (if inside im x y then Some (px im x y) else None)"


section \<open>The calls of \<^verbatim>\<open>create_app_icon\<close>\<close>

text \<open>
  \<^verbatim>\<open>create_app_icon\<close> is a straight line of Pillow calls on five image variables; the
  calls are recorded in program order and run against a store.  The \<^verbatim>\<open>Draw\<close> objects
  \<^verbatim>\<open>draw\<close>, \<^verbatim>\<open>mask_draw\<close>, \<^verbatim>\<open>overlay_draw\<close>, \<^verbatim>\<open>book_draw\<close> and \<^verbatim>\<open>spine_draw\<close> are each used
  only while their image variable still holds the image they were made for, so a drawing
  call names the variable.
\<close>

datatype var = Img | Mask | Overlay | BookOverlay | SpineIndent

datatype call =
    New var mode int int color
  | Line var int int int int color int
  | RoundedRectangle var int int int int int color
  | PutAlpha var var
  | AlphaComposite var var var

type_synonym store = "var \<Rightarrow> image option"

definition lookup :: "store \<Rightarrow> var \<Rightarrow> error + image" where
  "lookup st v = (case st v of None \<Rightarrow> Inl NameError | Some im \<Rightarrow> Inr im)"

definition bind :: "error + 'a \<Rightarrow> ('a \<Rightarrow> error + 'b) \<Rightarrow> error + 'b" where
  "bind m f = (case m of Inl e \<Rightarrow> Inl e | Inr a \<Rightarrow> f a)"

definition assign :: "store \<Rightarrow> var \<Rightarrow> error + image \<Rightarrow> error + store" where
  "assign st v m = bind m (\<lambda>im. Inr (st(v \<mapsto> im)))"

fun exec :: "scan \<Rightarrow> call \<Rightarrow> store \<Rightarrow> error + store" where
  "exec R (New v m w h c) st = assign st v (image_new m w h c)"
| "exec R (Line v x0 y0 x1 y1 c w) st =
     assign st v (bind (lookup st v) (\<lambda>im. draw_line R im x0 y0 x1 y1 c w))"
| "exec R (RoundedRectangle v x0 y0 x1 y1 r c) st =
     assign st v (bind (lookup st v) (\<lambda>im. draw_rounded_rectangle R im x0 y0 x1 y1 r c))"
| "exec R (PutAlpha v a) st =
     assign st v (bind (lookup st v) (\<lambda>im. bind (lookup st a) (\<lambda>al. putalpha im al)))"
| "exec R (AlphaComposite v a b) st =
     assign st v (bind (lookup st a) (\<lambda>im1. bind (lookup st b) (\<lambda>im2. alpha_composite im1 im2)))"

fun run :: "scan \<Rightarrow> call list \<Rightarrow> store \<Rightarrow> error + store" where
  "run R [] st = Inr st"
| "run R (c # cs) st = bind (exec R c st) (run R cs)"

subsection \<open>Geometry\<close>

definition corner_radius :: "int \<Rightarrow> int" where
  "corner_radius sz = py_int (py_mul sz (lit 22 2))"

definition rect_size :: "int \<Rightarrow> int" where
  "rect_size sz = py_int (py_mul sz (lit 55 2))"

definition rect_x :: "int \<Rightarrow> int" where
  "rect_x sz = (sz - rect_size sz) div 2"

definition rect_y :: "int \<Rightarrow> int" where
  "rect_y sz = (sz - rect_size sz) div 2"

definition rect_radius :: "int \<Rightarrow> int" where
  "rect_radius sz = py_int (py_mul sz (lit 95 3))"

definition book_width :: "int \<Rightarrow> int" where
  "book_width sz = py_int (py_mul sz (lit 32 2))"

definition book_height :: "int \<Rightarrow> int" where
  "book_height sz = py_int (py_mul sz (lit 40 2))"

definition book_x :: "int \<Rightarrow> int" where
  "book_x sz = (sz - book_width sz) div 2"

definition book_y :: "int \<Rightarrow> int" where
  "book_y sz = (sz - book_height sz) div 2"

definition spine_w :: "int \<Rightarrow> int" where
  "spine_w sz = py_int (py_mul (book_width sz) (lit 18 2))"

definition book_radius :: "int \<Rightarrow> int" where
  "book_radius sz = py_int (py_mul sz (lit 2 2))"

definition spine_x :: "int \<Rightarrow> int" where
  "spine_x sz = book_x sz + spine_w sz"

definition pages_width :: "int \<Rightarrow> int" where
  "pages_width sz = py_int (py_mul sz (lit 25 3))"

definition pages_x :: "int \<Rightarrow> int" where
  "pages_x sz = book_x sz + book_width sz - pages_width sz"

definition line_x :: "int \<Rightarrow> int \<Rightarrow> int" where
  "line_x sz i = pages_x sz + py_int (py_mul (i * sz) (lit 5 3))"

subsection \<open>Colours\<close>

definition top_color :: "int \<times> int \<times> int" where
  "top_color = (153, 115, 89)"

definition bottom_color :: "int \<times> int \<times> int" where
  "bottom_color = (115, 77, 51)"

definition book_color :: color where
  "book_color = ColorTuple [255, 255, 255, 255]"

text \<open>\<^verbatim>\<open>int(top + (bottom - top) * ratio)\<close> for one channel.\<close>

definition channel :: "int \<Rightarrow> int \<Rightarrow> float \<Rightarrow> int" where
  "channel t b ratio = py_int (py_add t (py_mul (b - t) ratio))"

definition row_color :: "int \<Rightarrow> int \<Rightarrow> color" where
  "row_color sz y =
     (let ratio = py_truediv y sz in
      case top_color of (tr, tg, tb) \<Rightarrow>
      case bottom_color of (br, bg, bb) \<Rightarrow>
        ColorTuple [channel tr br ratio, channel tg bg ratio, channel tb bb ratio])"

subsection \<open>The calls, in program order\<close>

definition py_range :: "int \<Rightarrow> int list" where
  "py_range n = map int [0..<nat n]"

text \<open>The body of \<^verbatim>\<open>for y in range(size)\<close>.\<close>

definition gradient_line :: "int \<Rightarrow> int \<Rightarrow> call" where
  "gradient_line sz y = Line Img 0 y sz y (row_color sz y) 0"

definition background_calls :: "int \<Rightarrow> call list" where
  "background_calls sz =
     New Img RGBA sz sz (ColorTuple [0, 0, 0, 0]) # map (gradient_line sz) (py_range sz)"

definition mask_calls :: "int \<Rightarrow> call list" where
  "mask_calls sz =
     [New Mask L sz sz (ColorInt 0),
      RoundedRectangle Mask 0 0 sz sz (corner_radius sz) (ColorInt 255),
      PutAlpha Img Mask]"

definition panel_calls :: "int \<Rightarrow> call list" where
  "panel_calls sz =
     [New Overlay RGBA sz sz (ColorTuple [0, 0, 0, 0]),
      RoundedRectangle Overlay (rect_x sz) (rect_y sz)
        (rect_x sz + rect_size sz) (rect_y sz + rect_size sz)
        (rect_radius sz) (ColorTuple [255, 255, 255, 51]),
      AlphaComposite Img Img Overlay]"

definition cover_call :: "int \<Rightarrow> call" where
  "cover_call sz =
     RoundedRectangle BookOverlay (book_x sz) (book_y sz)
       (book_x sz + book_width sz) (book_y sz + book_height sz)
       (book_radius sz) book_color"

definition spine_call :: "int \<Rightarrow> call" where
  "spine_call sz =
     Line SpineIndent
       (spine_x sz) (book_y sz + py_int (py_mul sz (lit 15 3)))
       (spine_x sz) (book_y sz + book_height sz - py_int (py_mul sz (lit 15 3)))
       (ColorTuple [200, 150, 100, 80]) (py_int (py_mul sz (lit 8 3)))"

text \<open>The body of \<^verbatim>\<open>for i in range(4)\<close>.\<close>

definition page_line :: "int \<Rightarrow> int \<Rightarrow> call" where
  "page_line sz i =
     Line BookOverlay
       (line_x sz i) (book_y sz + py_int (py_mul sz (lit 25 3)))
       (line_x sz i) (book_y sz + book_height sz - py_int (py_mul sz (lit 25 3)))
       (ColorTuple [220, 180, 140, 120]) (py_int (py_mul sz (lit 3 3)))"

definition book_calls :: "int \<Rightarrow> call list" where
  "book_calls sz =
     [New BookOverlay RGBA sz sz (ColorTuple [0, 0, 0, 0]),
      cover_call sz,
      New SpineIndent RGBA sz sz (ColorTuple [0, 0, 0, 0]),
      spine_call sz]
     @ map (page_line sz) (py_range 4)"

definition final_calls :: "call list" where
  "final_calls = [AlphaComposite Img Img BookOverlay, AlphaComposite Img Img SpineIndent]"

definition create_app_icon_calls :: "int \<Rightarrow> call list" where
  "create_app_icon_calls sz =
     background_calls sz @ mask_calls sz @ panel_calls sz @ book_calls sz @ final_calls"

text \<open>The canvas \<^verbatim>\<open>img\<close> after a run of calls from the empty store, and the function
  itself: the canvas after all its calls.\<close>

definition canvas_after :: "scan \<Rightarrow> call list \<Rightarrow> error + image" where
  "canvas_after R cs = bind (run R cs Map.empty) (\<lambda>st. lookup st Img)"

definition create_app_icon :: "scan \<Rightarrow> int \<Rightarrow> error + image" where
  "create_app_icon R sz = canvas_after R (create_app_icon_calls sz)"

text \<open>Reading one pixel of a result; \<open>None\<close> when there is no image or the position lies
  outside of it.\<close>

definition pixel_at :: "error + image \<Rightarrow> int \<Rightarrow> int \<Rightarrow> rgba option" where
  "pixel_at res x y = (case res of Inl e \<Rightarrow> None | Inr im \<Rightarrow> getpixel im x y)"

text \<open>The ink of gradient row \<open>y\<close>: \<^verbatim>\<open>fill=(r, g, b)\<close> on the \<^verbatim>\<open>RGBA\<close> canvas.\<close>

definition row_ink :: "int \<Rightarrow> int \<Rightarrow> rgba" where
  "row_ink sz y = (case getink RGBA (row_color sz y) of Inr ink \<Rightarrow> ink | Inl e \<Rightarrow> (0, 0, 0, 0))"

text \<open>The alpha channel of one pixel of a result.\<close>

definition alpha_at :: "error + image \<Rightarrow> int \<Rightarrow> int \<Rightarrow> nat option" where
  "alpha_at res x y = map_option (\<lambda>(r, g, b, a). a) (pixel_at res x y)"

subsection \<open>Selecting calls\<close>

text \<open>The drawing calls on one image variable, the \<^verbatim>\<open>putalpha\<close> calls and the
  \<^verbatim>\<open>alpha_composite\<close> calls.\<close>

fun draws_on :: "var \<Rightarrow> call \<Rightarrow> bool" where
  "draws_on v (Line u x0 y0 x1 y1 c w) = (u = v)"
| "draws_on v (RoundedRectangle u x0 y0 x1 y1 r c) = (u = v)"
| "draws_on v c = False"

fun is_putalpha :: "call \<Rightarrow> bool" where
  "is_putalpha (PutAlpha v a) = True"
| "is_putalpha c = False"

fun is_composite :: "call \<Rightarrow> bool" where
  "is_composite (AlphaComposite v a b) = True"
| "is_composite c = False"

subsection \<open>The book and spine layers as the specification words them\<close>

text \<open>
  The specification gives every length as a proportion of the canvas size, such as
  \<open>0.32 \<times> size\<close>.  \<open>exactly v n k sz\<close> says that the integer \<open>v\<close> is the proportion
  \<open>n / 10 ^ k\<close> of \<open>sz\<close>, without rounding.
\<close>

definition exactly :: "int \<Rightarrow> int \<Rightarrow> nat \<Rightarrow> int \<Rightarrow> bool" where
  "exactly v n k sz = (v * 10 ^ k = n * sz)"

text \<open>Page stroke \<open>i\<close> in the words of the specification: a vertical stroke at
  \<open>pages_x + i \<times> 0.005 \<times> size\<close> with \<open>pages_x = book_x + book_width - 0.025 \<times> size\<close>, from
  \<open>book_y + 0.025 \<times> size\<close> to \<open>book_y + book_height - 0.025 \<times> size\<close>, colour
  \<open>(220, 180, 140, 120)\<close>, width \<open>0.003 \<times> size\<close>.  Here \<open>x1 = book_x + book_width\<close>,
  \<open>y0 = book_y\<close> and \<open>y1 = book_y + book_height\<close>.\<close>

fun page_stroke_as_stated :: "int \<Rightarrow> int \<Rightarrow> int \<Rightarrow> int \<Rightarrow> int \<Rightarrow> call \<Rightarrow> bool" where
  "page_stroke_as_stated sz i x1 y0 y1 (Line v xa ya xb yb c w) =
     (v = BookOverlay \<and> xa = xb \<and> exactly (xa - x1) (5 * i - 25) 3 sz \<and>
      exactly (ya - y0) 25 3 sz \<and> exactly (y1 - yb) 25 3 sz \<and>
      c = ColorTuple [220, 180, 140, 120] \<and> exactly w 3 3 sz)"
| "page_stroke_as_stated sz i x1 y0 y1 c = False"

text \<open>The drawing calls on the book layer in the words of the specification: an opaque
  white rounded rectangle of radius \<open>0.02 \<times> size\<close> over a centred box of width
  \<open>0.32 \<times> size\<close> and height \<open>0.40 \<times> size\<close>, then exactly four page strokes.\<close>

fun book_layer_as_stated :: "int \<Rightarrow> call list \<Rightarrow> bool" where
  "book_layer_as_stated sz [RoundedRectangle v x0 y0 x1 y1 r c, l0, l1, l2, l3] =
     (v = BookOverlay \<and> c = ColorTuple [255, 255, 255, 255] \<and> exactly r 2 2 sz \<and>
      exactly (x1 - x0) 32 2 sz \<and> exactly (y1 - y0) 40 2 sz \<and>
      x0 = (sz - (x1 - x0)) div 2 \<and> y0 = (sz - (y1 - y0)) div 2 \<and>
      page_stroke_as_stated sz 0 x1 y0 y1 l0 \<and> page_stroke_as_stated sz 1 x1 y0 y1 l1 \<and>
      page_stroke_as_stated sz 2 x1 y0 y1 l2 \<and> page_stroke_as_stated sz 3 x1 y0 y1 l3)"
| "book_layer_as_stated sz cs = False"



section \<open>The file system and \<^verbatim>\<open>main\<close>\<close>

text \<open>
  \<^verbatim>\<open>main\<close> touches the file system through \<^verbatim>\<open>os.makedirs\<close>, \<^verbatim>\<open>Image.save\<close> and
  \<^verbatim>\<open>open(..., 'w')\<close>.  A file system maps a path, given by its components below the
  working directory, to a directory or to a file with its content.  Permissions, links and
  disk space are outside the model; what a call does when a path component is missing, is a
  regular file or is a directory follows POSIX.  The progress messages printed by \<^verbatim>\<open>main\<close>
  are not modelled.  The PNG encoding is opaque: a PNG file holds the raster it encodes.
\<close>

datatype content = Png image | Text string

datatype node = Dir | File content

type_synonym path = "string list"

type_synonym fs = "path \<Rightarrow> node option"

fun components_from :: "string \<Rightarrow> string \<Rightarrow> path" where
  "components_from cur [] = (if cur = [] then [] else [rev cur])"
| "components_from cur (c # cs) =
     (if c = CHR ''/'' then (if cur = [] then [] else [rev cur]) @ components_from [] cs
      else components_from (c # cur) cs)"

definition components :: "string \<Rightarrow> path" where
  "components s = components_from [] s"

definition os_path_join :: "string \<Rightarrow> string \<Rightarrow> string" where
  "os_path_join a b =
     (if b \<noteq> [] \<and> hd b = CHR ''/'' then b
      else if a = [] \<or> last a = CHR ''/'' then a @ b
      else a @ ''/'' @ b)"

fun walk :: "fs \<Rightarrow> path \<Rightarrow> path \<Rightarrow> error + node" where
  "walk fs pre [] = (case fs pre of None \<Rightarrow> Inl FileNotFoundError | Some n \<Rightarrow> Inr n)"
| "walk fs pre (c # cs) =
     (case fs pre of
        None \<Rightarrow> Inl FileNotFoundError
      | Some (File d) \<Rightarrow> Inl NotADirectoryError
      | Some Dir \<Rightarrow> walk fs (pre @ [c]) cs)"

definition stat :: "fs \<Rightarrow> path \<Rightarrow> error + node" where
  "stat fs p = (case p of [] \<Rightarrow> Inr Dir | c # cs \<Rightarrow> walk fs [c] cs)"

definition path_exists :: "fs \<Rightarrow> path \<Rightarrow> bool" where
  "path_exists fs p = (case stat fs p of Inl e \<Rightarrow> False | Inr n \<Rightarrow> True)"

definition isdir :: "fs \<Rightarrow> path \<Rightarrow> bool" where
  "isdir fs p = (stat fs p = Inr Dir)"

definition mkdir :: "fs \<Rightarrow> path \<Rightarrow> error + fs" where
  "mkdir fs p =
     (if p = [] then Inl FileNotFoundError
      else case stat fs (butlast p) of
             Inl e \<Rightarrow> Inl e
           | Inr (File d) \<Rightarrow> Inl NotADirectoryError
           | Inr Dir \<Rightarrow>
               (case fs p of
                  Some n \<Rightarrow> Inl FileExistsError
                | None \<Rightarrow> Inr (fs(p \<mapsto> Dir))))"

fun makedirs_rev :: "fs \<Rightarrow> path \<Rightarrow> bool \<Rightarrow> error + fs" where
  "makedirs_rev fs [] exist_ok = Inl FileNotFoundError"
| "makedirs_rev fs (tail # head) exist_ok =
     bind (if head \<noteq> [] \<and> \<not> path_exists fs (rev head)
           then (case makedirs_rev fs head exist_ok of
                   Inl e \<Rightarrow> if e = FileExistsError then Inr fs else Inl e
                 | Inr fs' \<Rightarrow> Inr fs')
           else Inr fs)
       (\<lambda>fs1. case mkdir fs1 (rev (tail # head)) of
                 Inl e \<Rightarrow> if \<not> exist_ok \<or> \<not> isdir fs1 (rev (tail # head)) then Inl e
                          else Inr fs1
               | Inr fs2 \<Rightarrow> Inr fs2)"

definition makedirs :: "fs \<Rightarrow> string \<Rightarrow> bool \<Rightarrow> error + fs" where
  "makedirs fs name exist_ok = makedirs_rev fs (rev (components name)) exist_ok"

definition write_file :: "fs \<Rightarrow> string \<Rightarrow> content \<Rightarrow> error + fs" where
  "write_file fs name d =
     (let p = components name in
      if p = [] then Inl FileNotFoundError
      else case stat fs (butlast p) of
             Inl e \<Rightarrow> Inl e
           | Inr (File d') \<Rightarrow> Inl NotADirectoryError
           | Inr Dir \<Rightarrow>
               (case fs p of
                  Some Dir \<Rightarrow> Inl IsADirectoryError
                | _ \<Rightarrow> Inr (fs(p \<mapsto> File d))))"

definition output_dir :: string where
  "output_dir = ''Vellum/Assets.xcassets/AppIcon.appiconset''"

definition output_path :: string where
  "output_path = os_path_join output_dir ''AppIcon.png''"

definition contents_json :: string where
  \<open>contents_json =
''{\<newline>  "images" : [\<newline>    {\<newline>      "filename" : "AppIcon.png",\<newline>      "idiom" : "universal",\<newline>      "platform" : "ios",\<newline>      "size" : "1024x1024"\<newline>    }\<newline>  ],\<newline>  "info" : {\<newline>    "author" : "xcode",\<newline>    "version" : 1\<newline>  }\<newline>}''\<close>

definition contents_path :: string where
  "contents_path = os_path_join output_dir ''Contents.json''"

definition main :: "scan \<Rightarrow> fs \<Rightarrow> error + fs" where
  "main R fs =
     bind (create_app_icon R 1024) (\<lambda>icon.
     bind (makedirs fs output_dir True) (\<lambda>fs1.
     bind (write_file fs1 output_path (Png icon)) (\<lambda>fs2.
     write_file fs2 contents_path (Text contents_json))))"


section \<open>JSON texts\<close>

text \<open>
  A reader for JSON texts (RFC 8259), against which the manifest is checked: objects,
  arrays, strings with the two-character escapes, integers, \<^verbatim>\<open>true\<close>, \<^verbatim>\<open>false\<close> and
  \<^verbatim>\<open>null\<close>.  Numbers with a fraction or an exponent and \<^verbatim>\<open>\\u\<close> escapes are rejected.  The
  recursion is bounded by the length of the text.
\<close>

datatype json =
    JNull | JBool bool | JNumber int | JString string
  | JArray "json list" | JObject "(string \<times> json) list"

definition is_ws :: "char \<Rightarrow> bool" where
  "is_ws c = (c = CHR '' '' \<or> c = CHR 0x0A \<or> c = CHR 0x0D \<or> c = CHR 0x09)"

definition lead :: "string \<Rightarrow> (char \<times> string) option" where
  "lead s = (case dropWhile is_ws s of [] \<Rightarrow> None | c # cs \<Rightarrow> Some (c, cs))"

definition unescape :: "char \<Rightarrow> char option" where
  "unescape e =
     (if e = CHR 0x22 \<or> e = CHR 0x5C \<or> e = CHR ''/'' then Some e
      else if e = CHR ''b'' then Some (CHR 0x08)
      else if e = CHR ''f'' then Some (CHR 0x0C)
      else if e = CHR ''n'' then Some (CHR 0x0A)
      else if e = CHR ''r'' then Some (CHR 0x0D)
      else if e = CHR ''t'' then Some (CHR 0x09)
      else None)"

fun parse_chars :: "string \<Rightarrow> string \<Rightarrow> (string \<times> string) option" where
  "parse_chars acc [] = None"
| "parse_chars acc [c] = (if c = CHR 0x22 then Some (rev acc, []) else None)"
| "parse_chars acc (c # e # cs) =
     (if c = CHR 0x22 then Some (rev acc, e # cs)
      else if c = CHR 0x5C then
        (case unescape e of None \<Rightarrow> None | Some d \<Rightarrow> parse_chars (d # acc) cs)
      else if (of_char c :: nat) < 32 then None
      else parse_chars (c # acc) (e # cs))"

definition digit_val :: "char \<Rightarrow> nat option" where
  "digit_val c =
     (let n = (of_char c :: nat) in if 48 \<le> n \<and> n \<le> 57 then Some (n - 48) else None)"

fun parse_digits :: "nat \<Rightarrow> string \<Rightarrow> nat \<times> string" where
  "parse_digits acc [] = (acc, [])"
| "parse_digits acc (c # cs) =
     (case digit_val c of None \<Rightarrow> (acc, c # cs) | Some d \<Rightarrow> parse_digits (acc * 10 + d) cs)"

definition parse_nat :: "string \<Rightarrow> (nat \<times> string) option" where
  "parse_nat s =
     (case s of
        [] \<Rightarrow> None
      | c # cs \<Rightarrow>
          (case digit_val c of
             None \<Rightarrow> None
           | Some d \<Rightarrow>
               (case parse_digits d cs of (n, r) \<Rightarrow>
                  if d = 0 \<and> r \<noteq> cs then None
                  else if r \<noteq> [] \<and> (hd r = CHR ''.'' \<or> hd r = CHR ''e'' \<or> hd r = CHR ''E'')
                  then None
                  else Some (n, r))))"

definition parse_number :: "string \<Rightarrow> (json \<times> string) option" where
  "parse_number s =
     (case s of
        [] \<Rightarrow> None
      | c # cs \<Rightarrow>
          if c = CHR ''-'' then map_option (\<lambda>(n, r). (JNumber (- int n), r)) (parse_nat cs)
          else map_option (\<lambda>(n, r). (JNumber (int n), r)) (parse_nat s))"

definition keyword :: "string \<Rightarrow> json \<Rightarrow> string \<Rightarrow> (json \<times> string) option" where
  "keyword k v s = (if take (length k) s = k then Some (v, drop (length k) s) else None)"

fun parse_value :: "nat \<Rightarrow> string \<Rightarrow> (json \<times> string) option"
  and parse_elements :: "nat \<Rightarrow> string \<Rightarrow> (json list \<times> string) option"
  and parse_members :: "nat \<Rightarrow> string \<Rightarrow> ((string \<times> json) list \<times> string) option" where
  "parse_value 0 s = None"
| "parse_value (Suc n) s =
     (case lead s of
        None \<Rightarrow> None
      | Some (c, cs) \<Rightarrow>
          if c = CHR ''{'' then
            (case lead cs of
               None \<Rightarrow> None
             | Some (d, r) \<Rightarrow>
                 if d = CHR ''}'' then Some (JObject [], r)
                 else map_option (\<lambda>(ms, r'). (JObject ms, r')) (parse_members n cs))
          else if c = CHR ''['' then
            (case lead cs of
               None \<Rightarrow> None
             | Some (d, r) \<Rightarrow>
                 if d = CHR '']'' then Some (JArray [], r)
                 else map_option (\<lambda>(vs, r'). (JArray vs, r')) (parse_elements n cs))
          else if c = CHR 0x22 then map_option (\<lambda>(t, r). (JString t, r)) (parse_chars [] cs)
          else if c = CHR ''t'' then keyword ''true'' (JBool True) (c # cs)
          else if c = CHR ''f'' then keyword ''false'' (JBool False) (c # cs)
          else if c = CHR ''n'' then keyword ''null'' JNull (c # cs)
          else parse_number (c # cs))"
| "parse_elements 0 s = None"
| "parse_elements (Suc n) s =
     (case parse_value n s of
        None \<Rightarrow> None
      | Some (v, r) \<Rightarrow>
          (case lead r of
             None \<Rightarrow> None
           | Some (d, r') \<Rightarrow>
               if d = CHR '']'' then Some ([v], r')
               else if d = CHR '','' then
                 map_option (\<lambda>(vs, r''). (v # vs, r'')) (parse_elements n r')
               else None))"
| "parse_members 0 s = None"
| "parse_members (Suc n) s =
     (case lead s of
        None \<Rightarrow> None
      | Some (q, cs) \<Rightarrow>
          if q \<noteq> CHR 0x22 then None
          else
            (case parse_chars [] cs of
               None \<Rightarrow> None
             | Some (k, r) \<Rightarrow>
                 (case lead r of
                    None \<Rightarrow> None
                  | Some (colon, r1) \<Rightarrow>
                      if colon \<noteq> CHR '':'' then None
                      else
                        (case parse_value n r1 of
                           None \<Rightarrow> None
                         | Some (v, r2) \<Rightarrow>
                             (case lead r2 of
                                None \<Rightarrow> None
                              | Some (d, r3) \<Rightarrow>
                                  if d = CHR ''}'' then Some ([(k, v)], r3)
                                  else if d = CHR '','' then
                                    map_option (\<lambda>(ms, r4). ((k, v) # ms, r4))
                                      (parse_members n r3)
                                  else None)))))"

definition parse_json :: "string \<Rightarrow> json option" where
  "parse_json s =
     (case parse_value (length s) s of
        None \<Rightarrow> None
      | Some (v, r) \<Rightarrow> if dropWhile is_ws r = [] then Some v else None)"

definition digit_char :: "nat \<Rightarrow> char" where
  "digit_char d = ''0123456789'' ! d"

fun str_nat :: "nat \<Rightarrow> string" where
  "str_nat n = (if n < 10 then [digit_char n] else str_nat (n div 10) @ [digit_char (n mod 10)])"

declare str_nat.simps [simp del]

definition py_str :: "int \<Rightarrow> string" where
  "py_str n = (if n < 0 then CHR ''-'' # str_nat (nat (- n)) else str_nat (nat n))"


text \<open>A file system is a tree when every entry other than a top-level one lies in a
  directory.\<close>

definition tree :: "fs \<Rightarrow> bool" where
  "tree fs = (\<forall>p. fs p \<noteq> None \<longrightarrow> p \<noteq> [] \<and> (butlast p = [] \<or> fs (butlast p) = Some Dir))"


(*DEFS_END*)

section \<open>Evaluating the float model\<close>

lemma bits_numeral:
  "bits 0 = 0" "bits 1 = 1" "bits (Suc 0) = 1" "bits (numeral k) = Suc (bits (numeral k div 2))"
  by (simp_all add: bits.simps [of 0] bits.simps [of "Suc 0"] bits.simps [of "numeral k"])

lemmas num_defs = py_int_def py_mul_def py_add_def py_truediv_def lit_def round53_def
  float_of_int_def fmul_def fadd_def bits_numeral Let_def

text \<open>The literal \<^verbatim>\<open>0.22\<close> is the binary64 number \<open>7926335344172073 * 2 ^ - 55\<close>.\<close>

lemma lit_22: "lit 22 2 = (7926335344172073, - 55)"
  by (simp add: num_defs)

lemma geom_1024:
  "corner_radius 1024 = 225" "rect_size 1024 = 563" "rect_x 1024 = 230" "rect_y 1024 = 230"
  "rect_radius 1024 = 97" "book_width 1024 = 327" "book_height 1024 = 409"
  "book_x 1024 = 348" "book_y 1024 = 307" "spine_w 1024 = 58" "book_radius 1024 = 20"
  "spine_x 1024 = 406" "pages_width 1024 = 25" "pages_x 1024 = 650"
  by (simp_all add: corner_radius_def rect_size_def rect_x_def rect_y_def rect_radius_def
      book_width_def book_height_def book_x_def book_y_def spine_w_def book_radius_def
      spine_x_def pages_width_def pages_x_def num_defs)

lemma lines_1024:
  "line_x 1024 0 = 650" "line_x 1024 1 = 655" "line_x 1024 2 = 660" "line_x 1024 3 = 665"
  "py_int (py_mul 1024 (lit 15 3)) = 15" "py_int (py_mul 1024 (lit 25 3)) = 25"
  "py_int (py_mul 1024 (lit 8 3)) = 8" "py_int (py_mul 1024 (lit 3 3)) = 3"
  by (simp_all add: line_x_def geom_1024 num_defs)

lemma row_ink_1024:
  "row_ink 1024 0 = (153, 115, 89, 255)"
  "row_ink 1024 512 = (134, 96, 70, 255)"
  "row_ink 1024 1023 = (115, 77, 51, 255)"
  by (simp_all add: row_ink_def row_color_def channel_def top_color_def bottom_color_def
      clip8_def num_defs)


section \<open>Running the calls\<close>

lemma bind_simps [simp]: "bind (Inl e) f = Inl e" "bind (Inr a) f = f a"
  by (simp_all add: bind_def)

lemma run_append: "run R (cs @ ds) st = bind (run R cs st) (run R ds)"
  by (induction cs arbitrary: st) (auto simp: bind_def split: sum.splits)

lemma mem_py_range: "y \<in> set (py_range n) \<longleftrightarrow> 0 \<le> y \<and> y < n"
  by (auto simp: py_range_def image_iff intro: bexI [of _ "nat y"])

lemma py_range_4: "py_range 4 = [0, 1, 2, 3]"
  by (simp add: py_range_def upt_rec)

text \<open>A hairline from \<open>(0, y0)\<close> to \<open>(sz, y0)\<close> covers exactly that row, whatever the scan
  converter does elsewhere.\<close>

lemma covers_hline:
  "covers R (Segment 0 y0 sz y0 0) x y \<longleftrightarrow>
     (if 0 \<le> sz then y = y0 \<and> 0 \<le> x \<and> x \<le> sz else y = y0 \<and> sz \<le> x \<and> x \<le> 0)"
  by (auto simp: covers_def in_box_def)

lemma row_color_ink: "\<exists>r g b. row_color sz y = ColorTuple [r, g, b]"
  by (simp add: row_color_def top_color_def bottom_color_def Let_def)

lemma getink_row: "getink RGBA (row_color sz y) = Inr (row_ink sz y)"
  using row_color_ink [of sz y] by (auto simp: row_ink_def)

text \<open>The gradient loop, for any list of rows: each listed row inside the canvas takes its
  ink, every other pixel is left as it was.\<close>

lemma run_gradient:
  assumes "st Img \<noteq> None" "mode (the (st Img)) = RGBA"
    "width (the (st Img)) = sz" "height (the (st Img)) = sz"
  shows "run R (map (gradient_line sz) ys) st =
     Inr (st(Img \<mapsto> (the (st Img))\<lparr>px := (\<lambda>x y.
        if 0 \<le> x \<and> x < sz \<and> 0 \<le> y \<and> y < sz \<and> y \<in> set ys then row_ink sz y
        else px (the (st Img)) x y)\<rparr>))"
  using assms
proof (induction ys arbitrary: st)
  case Nil
  then show ?case by (auto simp: fun_eq_iff)
next
  case (Cons y0 ys)
  obtain im where im: "st Img = Some im" using Cons.prems by auto
  let ?im1 = "paint R im (Segment 0 y0 sz y0 0) (row_ink sz y0)"
  have e: "exec R (gradient_line sz y0) st = Inr (st(Img \<mapsto> ?im1))"
    using im Cons.prems
    by (simp add: gradient_line_def assign_def lookup_def draw_line_def getink_row)
  have "run R (map (gradient_line sz) ys) (st(Img \<mapsto> ?im1)) =
     Inr ((st(Img \<mapsto> ?im1))(Img \<mapsto> (the ((st(Img \<mapsto> ?im1)) Img))\<lparr>px := (\<lambda>x y.
        if 0 \<le> x \<and> x < sz \<and> 0 \<le> y \<and> y < sz \<and> y \<in> set ys then row_ink sz y
        else px (the ((st(Img \<mapsto> ?im1)) Img)) x y)\<rparr>))"
    using Cons.prems im by (intro Cons.IH) (simp_all add: paint_def)
  then show ?case
    using im Cons.prems e
    by (auto simp: paint_def inside_def covers_hline fun_eq_iff intro!: image.equality)
qed

text \<open>The canvas after \<^verbatim>\<open>Image.new\<close> and the whole gradient loop.\<close>

lemma run_background:
  assumes "0 \<le> sz"
  shows "run R (background_calls sz) st =
     Inr (st(Img \<mapsto> \<lparr>mode = RGBA, width = sz, height = sz,
        px = (\<lambda>x y. if 0 \<le> x \<and> x < sz \<and> 0 \<le> y \<and> y < sz then row_ink sz y
                      else (0, 0, 0, 0))\<rparr>))"
  using assms
  by (simp add: background_calls_def assign_def image_new_def clip8_def run_gradient
      mem_py_range fun_eq_iff)


section \<open>Signs in the float model\<close>

lemma div_pow2_nonneg: "0 \<le> (m::int) \<Longrightarrow> 0 \<le> m div 2 ^ s"
  by (simp add: pos_imp_zdiv_nonneg_iff)

lemma round53_nonneg: "0 \<le> m \<Longrightarrow> 0 \<le> fst (round53 m e)"
  using div_pow2_nonneg [of m "nat (int (bits (nat m)) - 53)"]
  by (auto simp: round53_def Let_def sgn_if)

lemma py_truediv_nonneg: "0 \<le> a \<Longrightarrow> 0 \<le> b \<Longrightarrow> 0 \<le> fst (py_truediv a b)"
proof -
  assume a: "0 \<le> a" "0 \<le> b"
  let ?n = "\<bar>a\<bar> * 2 ^ nat (max 0 (55 + int (bits (nat \<bar>b\<bar>)) - int (bits (nat \<bar>a\<bar>))))"
  have "0 \<le> ?n" by simp
  then have "0 \<le> ?n div \<bar>b\<bar>" using a by (simp add: div_int_pos_iff)
  then have "0 \<le> sgn a * sgn b * (2 * (?n div \<bar>b\<bar>) + (if ?n mod \<bar>b\<bar> = 0 then 0 else 1))"
    using a by (auto simp: sgn_if)
  then show ?thesis
    unfolding py_truediv_def Let_def by (rule round53_nonneg)
qed

lemma py_int_nonneg: "0 \<le> fst a \<Longrightarrow> 0 \<le> py_int a"
  using div_pow2_nonneg [of "fst a" "nat (- snd a)"]
  by (cases a) (auto simp: py_int_def sgn_if)

text \<open>\<^verbatim>\<open>int(size * c)\<close> is not negative for a canvas size and a literal that are not.\<close>

lemma scaled_nonneg: "0 \<le> sz \<Longrightarrow> 0 \<le> n \<Longrightarrow> 0 \<le> py_int (py_mul sz (lit n k))"
proof -
  assume a: "0 \<le> sz" "0 \<le> n"
  obtain m1 e1 where f1: "float_of_int sz = (m1, e1)" by (cases "float_of_int sz")
  obtain m2 e2 where f2: "lit n k = (m2, e2)" by (cases "lit n k")
  have "0 \<le> m1" using round53_nonneg [of sz 0] a f1 by (simp add: float_of_int_def)
  moreover have "0 \<le> m2" using py_truediv_nonneg [of n "10 ^ k"] a f2 by (simp add: lit_def)
  ultimately have "0 \<le> fst (py_mul sz (lit n k))"
    using f1 f2 by (simp add: py_mul_def fmul_def round53_nonneg)
  then show ?thesis by (rule py_int_nonneg)
qed

lemmas geom_nonneg =
  scaled_nonneg [of _ 55 2, folded rect_size_def]
  scaled_nonneg [of _ 32 2, folded book_width_def]
  scaled_nonneg [of _ 40 2, folded book_height_def]

lemmas exec_defs = assign_def lookup_def image_new_def draw_line_def draw_rounded_rectangle_def
  putalpha_def alpha_composite_def paint_def clip8_def

lemmas call_defs = mask_calls_def panel_calls_def book_calls_def final_calls_def cover_call_def
  spine_call_def page_line_def book_color_def py_range_4


lemma create_app_icon_returns:
  assumes "0 \<le> sz"
  shows "\<exists>im. create_app_icon R sz = Inr im \<and> mode im = RGBA \<and> width im = sz \<and> height im = sz"
  using assms geom_nonneg [of sz]
  by (simp add: create_app_icon_def canvas_after_def create_app_icon_calls_def run_append
      run_background call_defs exec_defs)


section \<open>The size of the raster\<close>

text \<open>
  Claim C4.  For every positive integer \<^verbatim>\<open>size\<close>, \<^verbatim>\<open>create_app_icon(size)\<close> returns: no call
  raises, and the result is an \<^verbatim>\<open>RGBA\<close> raster of exactly \<^verbatim>\<open>size\<close> by \<^verbatim>\<open>size\<close> pixels.
  (Memory limits of the library are outside the model.)
\<close>

theorem create_app_icon_size:
  assumes "0 < sz"
  shows "\<exists>im. create_app_icon R sz = Inr im \<and> mode im = RGBA \<and> width im = sz \<and> height im = sz"
  using assms by (intro create_app_icon_returns) simp

theorem create_app_icon_size_witness:
  "(0::int) < 1024 \<and>
   (\<exists>im. create_app_icon (\<lambda>s x y. False) 1024 = Inr im \<and> mode im = RGBA \<and>
      width im = 1024 \<and> height im = 1024)"
  using create_app_icon_size [of 1024 "\<lambda>s x y. False"] by simp


section \<open>The gradient background\<close>

text \<open>
  Claim C1.  For \<^verbatim>\<open>size = 1024\<close>, after the background fill (the new canvas and the
  gradient loop with \<^verbatim>\<open>ratio = y / size\<close> and \<^verbatim>\<open>int()\<close> truncation per channel) the pixel
  in column 512 of the top row is \<open>(153, 115, 89)\<close>, the pixel in the same column of the
  bottom row 1023 is \<open>(115, 77, 51)\<close>, and the pixel in row 512 is \<open>(134, 96, 70)\<close>; all
  three are opaque.
\<close>

theorem gradient_background_1024:
  "pixel_at (canvas_after R (background_calls 1024)) 512 0 = Some (153, 115, 89, 255) \<and>
   pixel_at (canvas_after R (background_calls 1024)) 512 1023 = Some (115, 77, 51, 255) \<and>
   pixel_at (canvas_after R (background_calls 1024)) 512 512 = Some (134, 96, 70, 255)"
  by (simp add: pixel_at_def canvas_after_def run_background lookup_def getpixel_def inside_def
      row_ink_1024)


section \<open>Single pixels of the 1024 raster\<close>

lemmas cover_defs = covers_def in_box_def separate_corners_def corner_dist2_def clamp_def

lemmas comp_defs = composite_px_def shift_for_div255_def Let_def

lemmas icon_1024_defs = create_app_icon_def canvas_after_def create_app_icon_calls_def run_append
  run_background call_defs exec_defs geom_1024 lines_1024 pixel_at_def getpixel_def inside_def

text \<open>Each pixel is computed in three steps: the calls are run, the coverage tests are
  decided at the pixel, and the compositing arithmetic is evaluated.\<close>

lemma center_1024: "pixel_at (create_app_icon R 1024) 512 512 = Some (255, 255, 255, 255)"
  apply (simp add: icon_1024_defs)
  apply (simp add: cover_defs row_ink_1024)
  apply (simp add: comp_defs)
  done

lemma top_left_1024: "pixel_at (create_app_icon R 1024) 0 0 = Some (153, 115, 89, 0)"
  apply (simp add: icon_1024_defs)
  apply (simp add: cover_defs row_ink_1024)
  apply (simp add: comp_defs)
  done

lemma top_right_1024: "pixel_at (create_app_icon R 1024) 1023 0 = Some (153, 115, 89, 0)"
  apply (simp add: icon_1024_defs)
  apply (simp add: cover_defs row_ink_1024)
  apply (simp add: comp_defs)
  done

lemma bottom_left_1024: "pixel_at (create_app_icon R 1024) 0 1023 = Some (115, 77, 51, 0)"
  apply (simp add: icon_1024_defs)
  apply (simp add: cover_defs row_ink_1024)
  apply (simp add: comp_defs)
  done

lemma bottom_right_1024: "pixel_at (create_app_icon R 1024) 1023 1023 = Some (115, 77, 51, 0)"
  apply (simp add: icon_1024_defs)
  apply (simp add: cover_defs row_ink_1024)
  apply (simp add: comp_defs)
  done

text \<open>
  Claim C2.  In the raster returned for \<^verbatim>\<open>size = 1024\<close> the four corner pixels \<open>(0, 0)\<close>,
  \<open>(1023, 0)\<close>, \<open>(0, 1023)\<close> and \<open>(1023, 1023)\<close> are fully transparent (alpha 0) and the
  centre pixel \<open>(512, 512)\<close> is fully opaque (alpha 255).
\<close>

theorem corners_transparent_center_opaque:
  "alpha_at (create_app_icon R 1024) 0 0 = Some 0 \<and>
   alpha_at (create_app_icon R 1024) 1023 0 = Some 0 \<and>
   alpha_at (create_app_icon R 1024) 0 1023 = Some 0 \<and>
   alpha_at (create_app_icon R 1024) 1023 1023 = Some 0 \<and>
   alpha_at (create_app_icon R 1024) 512 512 = Some 255"
  by (simp add: alpha_at_def center_1024 top_left_1024 top_right_1024 bottom_left_1024
      bottom_right_1024)

text \<open>
  Claim C10.  For \<^verbatim>\<open>size = 1024\<close> the centre pixel \<open>(512, 512)\<close> of the returned raster is
  opaque white: it lies inside the opaque book cover, which is composited over the panel,
  and neither the spine stroke (at \<open>x = 406\<close>) nor one of the four page strokes (at
  \<open>x = 650, 655, 660, 665\<close>) reaches column 512.
\<close>

theorem center_pixel_white:
  "pixel_at (create_app_icon R 1024) 512 512 = Some (255, 255, 255, 255) \<and>
   spine_x 1024 = 406 \<and> map (line_x 1024) (py_range 4) = [650, 655, 660, 665]"
  by (simp add: center_1024 geom_1024 lines_1024 py_range_4)


section \<open>The calls on the book and spine layers\<close>

lemma filter_gradient [simp]:
  "filter (draws_on BookOverlay) (map (gradient_line sz) ys) = []"
  "filter (draws_on SpineIndent) (map (gradient_line sz) ys) = []"
  "filter is_putalpha (map (gradient_line sz) ys) = []"
  "filter is_composite (map (gradient_line sz) ys) = []"
  by (induction ys) (simp_all add: gradient_line_def)

text \<open>
  Claim C6, as amended.  For every \<^verbatim>\<open>size\<close> the drawing calls on the book layer are, in
  this order: one rounded rectangle, filled opaque white, of radius \<^verbatim>\<open>int(size * 0.02)\<close>
  over the box from \<open>(book_x, book_y)\<close> to \<open>(book_x + book_width, book_y + book_height)\<close>
  with \<^verbatim>\<open>book_width = int(size * 0.32)\<close>, \<^verbatim>\<open>book_height = int(size * 0.40)\<close>,
  \<^verbatim>\<open>book_x = (size - book_width) // 2\<close> and \<^verbatim>\<open>book_y = (size - book_height) // 2\<close>; then
  exactly four vertical strokes, for \<open>i = 0, 1, 2, 3\<close>, at
  \<^verbatim>\<open>x = book_x + book_width - int(size * 0.025) + int(i * size * 0.005)\<close> from
  \<^verbatim>\<open>book_y + int(size * 0.025)\<close> to \<^verbatim>\<open>book_y + book_height - int(size * 0.025)\<close>, of colour
  \<open>(220, 180, 140, 120)\<close> and width \<^verbatim>\<open>int(size * 0.003)\<close>.  Every proportion is truncated
  to a whole number of pixels.
\<close>

theorem book_layer_calls:
  "filter (draws_on BookOverlay) (create_app_icon_calls sz) =
     RoundedRectangle BookOverlay
       ((sz - py_int (py_mul sz (lit 32 2))) div 2)
       ((sz - py_int (py_mul sz (lit 40 2))) div 2)
       ((sz - py_int (py_mul sz (lit 32 2))) div 2 + py_int (py_mul sz (lit 32 2)))
       ((sz - py_int (py_mul sz (lit 40 2))) div 2 + py_int (py_mul sz (lit 40 2)))
       (py_int (py_mul sz (lit 2 2))) (ColorTuple [255, 255, 255, 255])
     # map (\<lambda>i. Line BookOverlay
          (book_x sz + book_width sz - py_int (py_mul sz (lit 25 3))
             + py_int (py_mul (i * sz) (lit 5 3)))
          (book_y sz + py_int (py_mul sz (lit 25 3)))
          (book_x sz + book_width sz - py_int (py_mul sz (lit 25 3))
             + py_int (py_mul (i * sz) (lit 5 3)))
          (book_y sz + book_height sz - py_int (py_mul sz (lit 25 3)))
          (ColorTuple [220, 180, 140, 120]) (py_int (py_mul sz (lit 3 3)))) [0, 1, 2, 3]"
  by (simp add: create_app_icon_calls_def background_calls_def call_defs book_x_def book_y_def
      book_width_def book_height_def book_radius_def line_x_def pages_x_def pages_width_def)

text \<open>At \<^verbatim>\<open>size = 1024\<close> these are the following five calls.\<close>

theorem book_layer_calls_witness:
  "filter (draws_on BookOverlay) (create_app_icon_calls 1024) =
     [RoundedRectangle BookOverlay 348 307 675 716 20 (ColorTuple [255, 255, 255, 255]),
      Line BookOverlay 650 332 650 691 (ColorTuple [220, 180, 140, 120]) 3,
      Line BookOverlay 655 332 655 691 (ColorTuple [220, 180, 140, 120]) 3,
      Line BookOverlay 660 332 660 691 (ColorTuple [220, 180, 140, 120]) 3,
      Line BookOverlay 665 332 665 691 (ColorTuple [220, 180, 140, 120]) 3]"
  using book_layer_calls [of 1024]
  by (simp add: geom_1024 lines_1024 book_width_def [symmetric] book_height_def [symmetric]
      num_defs)

text \<open>Claim C6 as stated, with the proportions taken exactly, fails at \<^verbatim>\<open>size = 1024\<close>: the
  box is 327 pixels wide, while \<open>0.32 \<times> 1024 = 327.68\<close>.\<close>

theorem book_layer_counterexample:
  "\<not> book_layer_as_stated 1024 (filter (draws_on BookOverlay) (create_app_icon_calls 1024))"
  by (simp add: create_app_icon_calls_def background_calls_def call_defs geom_1024 lines_1024
      exactly_def)





section \<open>The rounded-corner mask\<close>







section \<open>Running \<^verbatim>\<open>main\<close>\<close>

lemma comps:
  "components output_dir = [''Vellum'', ''Assets.xcassets'', ''AppIcon.appiconset'']"
  "components output_path = [''Vellum'', ''Assets.xcassets'', ''AppIcon.appiconset'', ''AppIcon.png'']"
  "components contents_path = [''Vellum'', ''Assets.xcassets'', ''AppIcon.appiconset'', ''Contents.json'']"
  by (simp_all add: components_def output_dir_def output_path_def contents_path_def os_path_join_def)

lemma str_1024: "py_str 1024 = ''1024''"
  by (simp add: py_str_def str_nat.simps [of 1024] str_nat.simps [of 102] str_nat.simps [of 10]
      str_nat.simps [of "Suc 0"] digit_char_def)

lemma parse_contents:
  "parse_json contents_json =
     Some (JObject
       [(''images'', JArray [JObject
           [(''filename'', JString ''AppIcon.png''), (''idiom'', JString ''universal''),
            (''platform'', JString ''ios''), (''size'', JString ''1024x1024'')]]),
        (''info'', JObject [(''author'', JString ''xcode''), (''version'', JNumber 1)])])"
  by (simp add: parse_json_def contents_json_def lead_def is_ws_def unescape_def digit_val_def
      parse_nat_def parse_number_def keyword_def eval_nat_numeral)

lemmas fs_defs = makedirs_def write_file_def mkdir_def stat_def path_exists_def isdir_def comps
  Let_def

lemma icon_1024: "\<exists>im. create_app_icon R 1024 = Inr im \<and> width im = 1024 \<and> height im = 1024"
  using create_app_icon_returns [of 1024 R] by auto

lemma main_result:
  assumes "main R fs = Inr fs'"
  shows "\<exists>im fs1. create_app_icon R 1024 = Inr im \<and> makedirs fs output_dir True = Inr fs1 \<and>
     stat fs1 (components output_dir) = Inr Dir \<and>
     fs1 (components output_path) \<noteq> Some Dir \<and> fs1 (components contents_path) \<noteq> Some Dir \<and>
     fs' = fs1(components output_path \<mapsto> File (Png im),
               components contents_path \<mapsto> File (Text contents_json))"
proof -
  obtain im where im: "create_app_icon R 1024 = Inr im" using icon_1024 by blast
  from assms im obtain fs1 where fs1: "makedirs fs output_dir True = Inr fs1"
    by (cases "makedirs fs output_dir True") (auto simp: main_def)
  from assms im fs1 obtain fs2 where fs2: "write_file fs1 output_path (Png im) = Inr fs2"
    by (cases "write_file fs1 output_path (Png im)") (auto simp: main_def)
  from assms im fs1 fs2 have w: "write_file fs2 contents_path (Text contents_json) = Inr fs'"
    by (simp add: main_def)
  from fs2 have a: "stat fs1 (components output_dir) = Inr Dir \<and>
      fs1 (components output_path) \<noteq> Some Dir \<and>
      fs2 = fs1(components output_path \<mapsto> File (Png im))"
    by (auto simp: write_file_def comps Let_def split: sum.splits node.splits option.splits)
  from w a have b: "fs1 (components contents_path) \<noteq> Some Dir \<and>
      fs' = fs2(components contents_path \<mapsto> File (Text contents_json))"
    by (auto simp: write_file_def comps Let_def split: sum.splits node.splits option.splits if_splits)
  show ?thesis using im fs1 a b by auto
qed


lemma stat_dir_iff:
  "stat fs [a, b, c] = Inr Dir \<longleftrightarrow>
     fs [a] = Some Dir \<and> fs [a, b] = Some Dir \<and> fs [a, b, c] = Some Dir"
  by (simp add: stat_def split: option.splits node.splits)

lemma stat_missing_iff:
  "stat fs [a, b, c] = Inl FileNotFoundError \<longleftrightarrow>
     fs [a] = None \<or> (fs [a] = Some Dir \<and> fs [a, b] = None) \<or>
     (fs [a] = Some Dir \<and> fs [a, b] = Some Dir \<and> fs [a, b, c] = None)"
  by (simp add: stat_def split: option.splits node.splits)

lemma stat_short:
  "stat fs [a] = (case fs [a] of None \<Rightarrow> Inl FileNotFoundError | Some n \<Rightarrow> Inr n)"
  "fs [a] = Some Dir \<Longrightarrow>
     stat fs [a, b] = (case fs [a, b] of None \<Rightarrow> Inl FileNotFoundError | Some n \<Rightarrow> Inr n)"
  by (simp_all add: stat_def)

lemma makedirs_existing:
  assumes "stat fs (components output_dir) = Inr Dir"
  shows "makedirs fs output_dir True = Inr fs"
proof -
  from assms have f: "fs [''Vellum''] = Some Dir" "fs [''Vellum'', ''Assets.xcassets''] = Some Dir"
    "fs [''Vellum'', ''Assets.xcassets'', ''AppIcon.appiconset''] = Some Dir"
    by (simp_all add: comps stat_dir_iff)
  show ?thesis
    by (simp add: makedirs_def comps path_exists_def isdir_def mkdir_def stat_short f stat_dir_iff)
qed

end
